theory Spec2Isabelle
  imports Complex_Main
begin

section \<open>The investment calculator of about-script.js\<close>

text \<open>
  The class \<open>InvestmentCalculator\<close> reads three form fields, validates them, computes
  the metrics of a rental investment and writes them into the element \<open>#calc-result\<close>.

  JavaScript numbers are modelled as the real numbers: every arithmetic operation is the
  exact one, so the statements below are about the formulas of the code and not about the
  rounding of IEEE doubles, and every number read from the page is a finite one. A
  division of JavaScript never throws; where the divisor is
  zero it yields an infinity or NaN, which no real number stands for. The model makes that
  outcome a value of its own, \<open>DivisionByZero\<close>, for every division whose divisor is
  not a non-zero literal.
\<close>

subsection \<open>Numbers, parsing and division\<close>

datatype error = InvalidInput | DivisionByZero

text \<open>
  \<open>parseFloat(document.getElementById(id)?.value)\<close> is taken as it comes out: \<open>None\<close>
  is NaN (the element is missing, or its text does not start with a number), \<open>Some x\<close>
  is the number read.  \<open>parseOr d v\<close> is the source's \<open>v || d\<close>: NaN and 0 are
  the falsy numbers.
\<close>

definition parseOr :: "real \<Rightarrow> real option \<Rightarrow> real" where
  "parseOr d v = (case v of None \<Rightarrow> d | Some x \<Rightarrow> if x = 0 then d else x)"

definition quot :: "real \<Rightarrow> real \<Rightarrow> error + real" where
  "quot x y = (if y = 0 then Inl DivisionByZero else Inr (x / y))"

subsection \<open>calculateMortgagePayment\<close>

text \<open>
  \<open>years\<close> is a whole number of years (the one caller passes 30), so that
  \<open>Math.pow(1 + monthlyRate, numPayments)\<close> is a power with a natural exponent.
  The parameter \<open>principal\<close> is written \<open>principalAmount\<close>, the shorter name being
  a constant of the library.
\<close>

definition calculateMortgagePayment :: "real \<Rightarrow> real \<Rightarrow> nat \<Rightarrow> error + real" where
  "calculateMortgagePayment principalAmount annualRate years =
     (let monthlyRate = annualRate / 12;
          numPayments = years * 12
      in if monthlyRate = 0 then quot principalAmount (real numPayments)
         else quot (principalAmount * (monthlyRate * (1 + monthlyRate) ^ numPayments))
                   ((1 + monthlyRate) ^ numPayments - 1))"

subsection \<open>getInvestmentGrade\<close>

definition getInvestmentGrade :: "real \<Rightarrow> real \<Rightarrow> real \<Rightarrow> string" where
  "getInvestmentGrade cashOnCashReturn capRate monthlyCashFlow =
     (if monthlyCashFlow < 0 then ''Poor - Negative Cash Flow''
      else if cashOnCashReturn \<ge> 12 \<and> capRate \<ge> 8 then ''Excellent''
      else if cashOnCashReturn \<ge> 8 \<and> capRate \<ge> 6 then ''Good''
      else if cashOnCashReturn \<ge> 5 \<and> capRate \<ge> 4 then ''Fair''
      else ''Below Average'')"

subsection \<open>calculateROI: the computation\<close>

text \<open>
  The values \<open>calculateROI\<close> computes between its validation and its rendering, under
  the names the specification gives them.
\<close>

record CalculatorResult =
  downPayment :: real
  loanAmount :: real
  monthlyMortgage :: real
  monthlyExpenses :: real
  monthlyCashFlow :: real
  annualCashFlow :: real
  cashOnCashReturnPercent :: real
  capRatePercent :: real
  onePercentRulePercent :: real
  grade :: string

text \<open>
  \<open>calculate\<close> is \<open>calculateROI\<close> from the reading of the three fields to the last
  metric: the arguments are the three parsed field values, the result is the early
  return of the validation (\<open>InvalidInput\<close>) or the record of the locals. A local
  that shares its name with a field of the record carries a prime. The grade is the one
  the template asks \<open>getInvestmentGrade\<close> for.
\<close>

definition calculate :: "real option \<Rightarrow> real option \<Rightarrow> real option \<Rightarrow> error + CalculatorResult" where
  "calculate price percent rent =
     (let propertyPrice = parseOr 0 price;
          downPaymentPercent = parseOr 20 percent;
          monthlyRent = parseOr 0 rent
      in if propertyPrice \<le> 0 \<or> monthlyRent \<le> 0 then Inl InvalidInput
         else
           let downPayment' = propertyPrice * (downPaymentPercent / 100);
               loanAmount' = propertyPrice - downPayment'
           in case calculateMortgagePayment loanAmount' 0.065 30 of
                Inl e \<Rightarrow> Inl e
              | Inr monthlyMortgage' \<Rightarrow>
                  let monthlyExpenses' = (propertyPrice * 0.01) / 12;
                      monthlyCashFlow' = monthlyRent - monthlyMortgage' - monthlyExpenses';
                      annualCashFlow' = monthlyCashFlow' * 12
                  in case (if downPayment' > 0
                           then map_sum id (\<lambda>q. q * 100) (quot annualCashFlow' downPayment')
                           else Inr 0) of
                       Inl e \<Rightarrow> Inl e
                     | Inr cashOnCashReturn \<Rightarrow>
                         (case map_sum id (\<lambda>q. q * 100)
                                 (quot (monthlyRent * 12 - propertyPrice * 0.01) propertyPrice) of
                            Inl e \<Rightarrow> Inl e
                          | Inr capRate \<Rightarrow>
                              (case map_sum id (\<lambda>q. q * 100) (quot monthlyRent propertyPrice) of
                                 Inl e \<Rightarrow> Inl e
                               | Inr onePercentRule \<Rightarrow>
                                   Inr \<lparr>downPayment = downPayment',
                                        loanAmount = loanAmount',
                                        monthlyMortgage = monthlyMortgage',
                                        monthlyExpenses = monthlyExpenses',
                                        monthlyCashFlow = monthlyCashFlow',
                                        annualCashFlow = annualCashFlow',
                                        cashOnCashReturnPercent = cashOnCashReturn,
                                        capRatePercent = capRate,
                                        onePercentRulePercent = onePercentRule,
                                        grade = getInvestmentGrade cashOnCashReturn capRate
                                                  monthlyCashFlow'\<rparr>)))"

subsection \<open>calculateROI: the page\<close>

text \<open>
  What \<open>showResult\<close> writes: the error text, or the results markup, which is kept as
  the six values the template interpolates (monthly cash flow, cash-on-cash return,
  cap rate, 1% rule, down payment, grade), before \<open>toFixed\<close> and
  \<open>toLocaleString\<close> format them.
\<close>

datatype content = Message string | Metrics real real real real real string

record element =
  innerHTML :: content
  className :: string

text \<open>
  The state \<open>calculateROI\<close> reads and writes: the parsed values of the inputs
  \<open>#property-price\<close>, \<open>#down-payment\<close> and \<open>#monthly-rent\<close>, the element
  \<open>#calc-result\<close> (\<open>None\<close> when the page has none) and whether the style sheet
  \<open>#calc-styles\<close> has been added. \<open>showResult\<close> returns at once without the
  element; otherwise it sets the content and the class and adds the style sheet if it is
  not there yet (the scrolling into view is not part of the state).
\<close>

record page =
  propertyPriceField :: "real option"
  downPaymentField :: "real option"
  monthlyRentField :: "real option"
  calcResult :: "element option"
  calcStyles :: bool

definition showResult :: "content \<Rightarrow> string \<Rightarrow> page \<Rightarrow> page" where
  "showResult c type pg =
     (case calcResult pg of
        None \<Rightarrow> pg
      | Some _ \<Rightarrow> pg\<lparr>calcResult := Some \<lparr>innerHTML = c, className = ''calc-result show '' @ type\<rparr>,
                      calcStyles := True\<rparr>)"

definition resultHTML :: "CalculatorResult \<Rightarrow> content" where
  "resultHTML r = Metrics (monthlyCashFlow r) (cashOnCashReturnPercent r) (capRatePercent r)
                    (onePercentRulePercent r) (downPayment r) (grade r)"

definition calculateROI :: "page \<Rightarrow> error + page" where
  "calculateROI pg =
     (case calculate (propertyPriceField pg) (downPaymentField pg) (monthlyRentField pg) of
        Inl InvalidInput \<Rightarrow>
          Inr (showResult (Message ''Please enter valid property price and monthly rent.'') ''error'' pg)
      | Inl DivisionByZero \<Rightarrow> Inl DivisionByZero
      | Inr r \<Rightarrow> Inr (showResult (resultHTML r) ''success'' pg))"

subsection \<open>The grades of the specification\<close>

datatype Grade = PoorNegativeCashFlow | Excellent | Good | Fair | BelowAverage

text \<open>The decision table of the specification, row by row.\<close>

definition gradeInvestment :: "real \<Rightarrow> real \<Rightarrow> real \<Rightarrow> Grade" where
  "gradeInvestment coc capRate cashFlow =
     (if cashFlow < 0 then PoorNegativeCashFlow
      else if coc \<ge> 12 \<and> capRate \<ge> 8 then Excellent
      else if coc \<ge> 8 \<and> capRate \<ge> 6 then Good
      else if coc \<ge> 5 \<and> capRate \<ge> 4 then Fair
      else BelowAverage)"

text \<open>The label the code prints for each grade.\<close>

fun gradeLabel :: "Grade \<Rightarrow> string" where
  "gradeLabel PoorNegativeCashFlow = ''Poor - Negative Cash Flow''"
| "gradeLabel Excellent = ''Excellent''"
| "gradeLabel Good = ''Good''"
| "gradeLabel Fair = ''Fair''"
| "gradeLabel BelowAverage = ''Below Average''"

subsection \<open>The growth factor of the fixed loan\<close>

text \<open>
  \<open>calculateROI\<close> asks for the payment at 6.5% a year: \<open>growth n\<close> is
  \<open>Math.pow(1 + monthlyRate, n)\<close> at that rate.
\<close>

definition growth :: "nat \<Rightarrow> real" where
  "growth n = (1 + 0.065 / 12) ^ n"

subsection \<open>The value of an annuity\<close>


section \<open>Properties\<close>

subsection \<open>The grade\<close>

lemma gradeLabel_inj: "gradeLabel g = gradeLabel h \<longleftrightarrow> g = h"
  by (cases g; cases h) simp_all

text \<open>
  C4: \<open>getInvestmentGrade\<close> is the ordered decision chain of the specification, the
  first matching row winning and every threshold inclusive: it prints the label of the
  grade the table gives, two grades never share a label, and at the boundary
  \<open>coc = 12\<close>, \<open>capRate = 8\<close>, \<open>cashFlow = 0\<close> the grade is Excellent.
\<close>

theorem getInvestmentGrade_table:
  "getInvestmentGrade coc capRate cashFlow = gradeLabel (gradeInvestment coc capRate cashFlow)
   \<and> (gradeLabel g = gradeLabel h \<longleftrightarrow> g = h)
   \<and> getInvestmentGrade 12 8 0 = ''Excellent''
   \<and> gradeInvestment 12 8 0 = Excellent"
  by (simp add: getInvestmentGrade_def gradeInvestment_def gradeLabel_inj)

subsection \<open>The payment of the fixed loan\<close>


lemma growth_gt_1: "0 < n \<Longrightarrow> 1 < growth n"
  unfolding growth_def by (rule one_less_power) simp_all

lemma calculateMortgagePayment_fixed:
  "calculateMortgagePayment la 0.065 30 = Inr (la * (0.065 / 12 * growth 360) / (growth 360 - 1))"
proof -
  have n: "(30::nat) * 12 = 360" by simp
  have g: "(1 + 0.065 / 12 :: real) ^ (30 * 12) = growth 360"
    by (simp only: growth_def n)
  have "growth 360 - 1 \<noteq> 0"
    using growth_gt_1 [of 360] by simp
  then show ?thesis
    unfolding calculateMortgagePayment_def Let_def g by (simp add: quot_def)
qed

subsection \<open>Valid and invalid input\<close>

lemma calculate_valid:
  fixes price percent rent :: "real option"
  assumes "0 < parseOr 0 price" and "0 < parseOr 0 rent"
  defines "P \<equiv> parseOr 0 price" and "d \<equiv> parseOr 20 percent" and "R \<equiv> parseOr 0 rent"
  defines "M \<equiv> (P - P * (d / 100)) * (0.065 / 12 * growth 360) / (growth 360 - 1)"
  defines "coc \<equiv> (if P * (d / 100) > 0 then (R - M - P * 0.01 / 12) * 12 / (P * (d / 100)) * 100 else 0)"
  shows "calculate price percent rent =
     Inr \<lparr>downPayment = P * (d / 100), loanAmount = P - P * (d / 100), monthlyMortgage = M,
          monthlyExpenses = P * 0.01 / 12, monthlyCashFlow = R - M - P * 0.01 / 12,
          annualCashFlow = (R - M - P * 0.01 / 12) * 12, cashOnCashReturnPercent = coc,
          capRatePercent = (R * 12 - P * 0.01) / P * 100, onePercentRulePercent = R / P * 100,
          grade = getInvestmentGrade coc ((R * 12 - P * 0.01) / P * 100) (R - M - P * 0.01 / 12)\<rparr>"
  using assms(1,2) unfolding calculate_def Let_def calculateMortgagePayment_fixed P_def d_def R_def M_def coc_def
  by (simp add: quot_def)


lemma calculate_invalid:
  assumes "parseOr 0 price \<le> 0 \<or> parseOr 0 rent \<le> 0"
  shows "calculate price percent rent = Inl InvalidInput"
  using assms unfolding calculate_def Let_def by simp

text \<open>
  C1: when the property price or the monthly rent, as read (a missing or non-numeric
  field counting as 0), is not positive, the computation stops at the validation with
  \<open>InvalidInput\<close>: no result record exists, and the page shows the error text under
  the class \<open>error\<close> and no metric.
\<close>

theorem calculate_invalid_input:
  assumes "parseOr 0 (propertyPriceField pg) \<le> 0 \<or> parseOr 0 (monthlyRentField pg) \<le> 0"
  shows "calculate (propertyPriceField pg) (downPaymentField pg) (monthlyRentField pg) = Inl InvalidInput
    \<and> calculateROI pg =
         Inr (showResult (Message ''Please enter valid property price and monthly rent.'') ''error'' pg)"
  using calculate_invalid [OF assms, of "downPaymentField pg"] by (simp add: calculateROI_def)

theorem calculate_invalid_input_witness:
  "parseOr 0 (Some 0) \<le> 0
   \<and> calculate (Some 0) (Some 20) (Some 2000) = Inl InvalidInput
   \<and> calculateROI \<lparr>propertyPriceField = Some 0, downPaymentField = Some 20,
          monthlyRentField = Some 2000,
          calcResult = Some \<lparr>innerHTML = Message [], className = ''calc-result''\<rparr>,
          calcStyles = False\<rparr>
       = Inr \<lparr>propertyPriceField = Some 0, downPaymentField = Some 20,
          monthlyRentField = Some 2000,
          calcResult = Some \<lparr>innerHTML = Message ''Please enter valid property price and monthly rent.'',
                              className = ''calc-result show error''\<rparr>,
          calcStyles = True\<rparr>"
  using calculate_invalid_input [of "\<lparr>propertyPriceField = Some 0, downPaymentField = Some 20,
          monthlyRentField = Some 2000,
          calcResult = Some \<lparr>innerHTML = Message [], className = ''calc-result''\<rparr>,
          calcStyles = False\<rparr>"]
  by (simp add: parseOr_def showResult_def)

text \<open>
  C7: on valid input (price and rent positive) every division of \<open>calculateROI\<close> has a
  non-zero divisor, so the computation reaches its result; on no input at all is
  \<open>DivisionByZero\<close> the outcome, and \<open>calculateROI\<close> always ends with a page.
\<close>

theorem calculate_total:
  "(0 < parseOr 0 price \<and> 0 < parseOr 0 rent \<longrightarrow> (\<exists>r. calculate price percent rent = Inr r))
   \<and> calculate price percent rent \<noteq> Inl DivisionByZero
   \<and> (\<exists>pg'. calculateROI pg = Inr pg')"
proof -
  have valid: "\<exists>r. calculate a b c = Inr r" if "0 < parseOr 0 a \<and> 0 < parseOr 0 c" for a b c
    using calculate_valid [of a c b] that by simp
  have nodiv: "calculate a b c \<noteq> Inl DivisionByZero" for a b c
  proof (cases "0 < parseOr 0 a \<and> 0 < parseOr 0 c")
    case True
    then show ?thesis using valid [of a c b] by auto
  next
    case False
    then have "parseOr 0 a \<le> 0 \<or> parseOr 0 c \<le> 0" by auto
    then show ?thesis using calculate_invalid [of a c b] by simp
  qed
  have "\<exists>pg'. calculateROI pg = Inr pg'"
    using nodiv [of "propertyPriceField pg" "downPaymentField pg" "monthlyRentField pg"]
    by (simp add: calculateROI_def split: sum.split error.split)
  with valid nodiv show ?thesis by blast
qed

theorem calculate_total_witness:
  "0 < parseOr 0 (Some 300000) \<and> 0 < parseOr 0 (Some 2000)
   \<and> (\<exists>r. calculate (Some 300000) (Some 20) (Some 2000) = Inr r)"
  using calculate_total [of "Some 300000" "Some 2000" "Some 20"] by (simp add: parseOr_def)



subsection \<open>The down-payment percent\<close>






subsection \<open>The payment formula\<close>



subsection \<open>The payment grows with the rate\<close>









subsection \<open>The scenario of the specification\<close>

















subsection \<open>Determinism\<close>



end
